theory Spec2Isabelle
  imports Complex_Main
begin

section \<open>The game of \<open>src/App.js\<close>\<close>

text \<open>
  The component \<open>App\<close> keeps its simulation state in React state cells (\<open>running\<close>,
  \<open>score\<close>, \<open>best\<close>, \<open>gameOver\<close>) and in mutable reference cells (\<open>playerRef\<close>,
  \<open>obstaclesRef\<close>, \<open>keysRef\<close>, \<open>lastSpawnRef\<close>, \<open>animationRef\<close>, \<open>lastTimeRef\<close>).
  All of them are fields of one record here, and every function of the component takes the
  record and returns the updated one.

  Conventions of the embedding:
  \<^item> JavaScript numbers are real numbers: rounding of doubles, infinities and NaN are not
    modelled.
  \<^item> A state cell of the record holds the value the next render will see: a setter
    updates it at once (\<open>setScore((s) => s + 1)\<close> is \<open>score := score + 1\<close>).
  \<^item> The functions of the component do not read the cells: \<open>running\<close>, \<open>score\<close>, \<open>best\<close>
    and \<open>gameOver\<close> are \<open>const\<close>s of the render that created the function, and a function
    keeps the values of its render for as long as it lives. Every function that reads one
    of them takes the values of its render as a parameter of type \<open>render\<close>.
  \<^item> \<open>animationRef\<close> is abstracted to \<open>framePending\<close>: the render whose \<open>loop\<close> was
    requested with \<open>requestAnimationFrame\<close> and has neither run nor been cancelled yet,
    if there is one.
  \<^item> \<open>Math.random()\<close> and \<open>Date.now()\<close> are inputs: \<open>spawnObstacle\<close> takes the four
    draws it makes, in the order it makes them, and the clock value.
  \<^item> The source file has unbalanced braces in \<open>onKeyDown\<close> (a stray one after the jump)
    and in \<open>updatePlayer\<close> (the closing one is missing), and a stray
    \<open>localStorage.getItem\<close> line in \<open>stopGame\<close>; each function is read as its statements
    stand, and the stray line, a read, changes no state.
\<close>

subsection \<open>Constants\<close>

definition GAME_WIDTH :: real where "GAME_WIDTH = 700"
definition GAME_HEIGHT :: real where "GAME_HEIGHT = 500"
definition PLAYER_SIZE :: real where "PLAYER_SIZE = 34"
definition GRAVITY :: real where "GRAVITY = 0.9"
definition JUMP_VELOCITY :: real where "JUMP_VELOCITY = - 14"
definition HORIZ_SPEED :: real where "HORIZ_SPEED = 6"
definition OBSTACLE_WIDTH :: real where "OBSTACLE_WIDTH = 70"
definition GAP_MIN :: real where "GAP_MIN = 120"
definition GAP_MAX :: real where "GAP_MAX = 180"
definition OBSTACLE_INTERVAL :: real where "OBSTACLE_INTERVAL = 1600"
definition OBSTACLE_SPEED :: real where "OBSTACLE_SPEED = 3.2"

subsection \<open>Data\<close>

record player =
  px :: real
  py :: real
  pvy :: real
  pwidth :: real
  pheight :: real

record obstacle =
  ox :: real
  gapTop :: real
  gapHeight :: real
  owidth :: real
  speed :: real
  passed :: bool
  oid :: real

text \<open>The rectangles \<open>{x, y, w, h}\<close> that \<open>detectCollisions\<close> builds.\<close>

record rect =
  rx :: real
  ry :: real
  rw :: real
  rh :: real

text \<open>The values \<open>spawnObstacle\<close> reads from \<open>Math.random()\<close> (in call order) and \<open>Date.now()\<close>.\<close>

record draws =
  d1 :: real
  d2 :: real
  d3 :: real
  d4 :: real
  now :: real

text \<open>The \<open>const\<close>s \<open>running\<close>, \<open>score\<close>, \<open>best\<close> and \<open>gameOver\<close> of one render.\<close>

record render =
  rRunning :: bool
  rScore :: int
  rBest :: int
  rGameOver :: bool

record game =
  running :: bool
  score :: int
  best :: int
  gameOver :: bool
  playerRef :: player
  obstaclesRef :: "obstacle list"
  keysRef :: "string \<rightharpoonup> bool"
  lastSpawnRef :: real
  framePending :: "render option"
  lastTimeRef :: "real option"

text \<open>\<open>keysRef.current[code]\<close> used as a condition: an absent key is \<open>undefined\<close>, which is falsy.\<close>

definition held :: "(string \<rightharpoonup> bool) \<Rightarrow> string \<Rightarrow> bool" where
  "held ks code = (ks code = Some True)"

definition initialPlayer :: player where
  "initialPlayer =
     \<lparr>px = GAME_WIDTH / 4, py = GAME_HEIGHT / 2, pvy = 0,
      pwidth = PLAYER_SIZE, pheight = PLAYER_SIZE\<rparr>"

text \<open>The state at construction; \<open>b\<close> is the best score read from local storage.\<close>

definition initialGame :: "int \<Rightarrow> game" where
  "initialGame b =
     \<lparr>running = False, score = 0, best = b, gameOver = False,
      playerRef = initialPlayer, obstaclesRef = [], keysRef = Map.empty,
      lastSpawnRef = 0, framePending = None, lastTimeRef = None\<rparr>"

subsection \<open>Random integers and spawning\<close>

definition randomBetween :: "real \<Rightarrow> real \<Rightarrow> real \<Rightarrow> real" where
  "randomBetween r a b = of_int \<lfloor>r * (b - a + 1)\<rfloor> + a"

definition newObstacle :: "draws \<Rightarrow> obstacle" where
  "newObstacle rnd =
     (let gapH = randomBetween (d1 rnd) GAP_MIN GAP_MAX;
          gapT = randomBetween (d2 rnd) 40 (GAME_HEIGHT - gapH - 40)
      in \<lparr>ox = GAME_WIDTH + 20, gapTop = gapT, gapHeight = gapH,
          owidth = OBSTACLE_WIDTH, speed = OBSTACLE_SPEED + d3 rnd * 0.4,
          passed = False, oid = now rnd + d4 rnd\<rparr>)"

definition spawnObstacle :: "draws \<Rightarrow> game \<Rightarrow> game" where
  "spawnObstacle rnd g =
     (let pushed = obstaclesRef g @ [newObstacle rnd]
      in g\<lparr>obstaclesRef := (if length pushed > 10 then tl pushed else pushed)\<rparr>)"

subsection \<open>Session control\<close>

definition resetGame :: "game \<Rightarrow> game" where
  "resetGame g =
     g\<lparr>playerRef := initialPlayer, obstaclesRef := [], score := 0,
       gameOver := False, lastSpawnRef := 0\<rparr>"

text \<open>
  \<open>startGame\<close> cancels the pending frame and requests one for \<open>loop\<close>, the \<open>loop\<close> of its own
  render \<open>c\<close>.
\<close>

definition startGame :: "render \<Rightarrow> game \<Rightarrow> game" where
  "startGame c g =
     (resetGame g)\<lparr>running := True, lastTimeRef := None, framePending := Some c\<rparr>"

text \<open>\<open>stopGame\<close> compares and stores the \<open>score\<close> and \<open>best\<close> of its render \<open>c\<close>.\<close>

definition stopGame :: "render \<Rightarrow> bool \<Rightarrow> game \<Rightarrow> game" where
  "stopGame c didLose g =
     g\<lparr>running := False, gameOver := didLose,
       best := (if rScore c > rBest c then rScore c else best g),
       framePending := None\<rparr>"

subsection \<open>Player kinematics\<close>

text \<open>
  \<open>updatePlayer\<close> is the sequence of the five statement groups of the source, each named
  after its comment there.
\<close>

definition horizontal :: "(string \<rightharpoonup> bool) \<Rightarrow> player \<Rightarrow> player" where
  "horizontal ks p =
     (let p1 = (if held ks ''ArrowLeft'' then p\<lparr>px := px p - HORIZ_SPEED\<rparr> else p)
      in if held ks ''ArrowRight'' then p1\<lparr>px := px p1 + HORIZ_SPEED\<rparr> else p1)"

definition boundsClamp :: "player \<Rightarrow> player" where
  "boundsClamp p = p\<lparr>px := max 0 (min (GAME_WIDTH - pwidth p) (px p))\<rparr>"

definition gravityVertical :: "real \<Rightarrow> player \<Rightarrow> player" where
  "gravityVertical dt p =
     (let p1 = p\<lparr>pvy := pvy p + GRAVITY * min (dt / 16.6667) 2\<rparr>
      in p1\<lparr>py := py p1 + pvy p1 * (dt / 16.6667)\<rparr>)"

definition clampVertical :: "player \<Rightarrow> player" where
  "clampVertical p = p\<lparr>py := max 0 (min (GAME_HEIGHT - pheight p) (py p))\<rparr>"

definition floorCeiling :: "player \<Rightarrow> player" where
  "floorCeiling p =
     (let p1 = (if py p + pheight p > GAME_HEIGHT
                then p\<lparr>py := GAME_HEIGHT - pheight p, pvy := 0\<rparr> else p)
      in if py p1 < 0 then p1\<lparr>py := 0, pvy := 0\<rparr> else p1)"

definition updatePlayer :: "(string \<rightharpoonup> bool) \<Rightarrow> real \<Rightarrow> player \<Rightarrow> player" where
  "updatePlayer ks dt p =
     floorCeiling (clampVertical (gravityVertical dt (boundsClamp (horizontal ks p))))"

text \<open>The jump of the key-down handler: \<open>vy = JUMP_VELOCITY\<close> and an instant lift of 2.\<close>

definition jump :: "player \<Rightarrow> player" where
  "jump p = p\<lparr>pvy := JUMP_VELOCITY, py := py p - 2\<rparr>"

subsection \<open>Obstacles and scoring\<close>

text \<open>The body of the \<open>for\<close> loop of \<open>updateObstacles\<close>, on one obstacle and the score.\<close>

definition obstacleBody :: "real \<Rightarrow> real \<Rightarrow> obstacle \<Rightarrow> int \<Rightarrow> obstacle \<times> int" where
  "obstacleBody dt playerX ob sc =
     (let ob1 = ob\<lparr>ox := ox ob - speed ob * (dt / 16.6667)\<rparr>
      in if \<not> passed ob1 \<and> ox ob1 + owidth ob1 < playerX
         then (ob1\<lparr>passed := True\<rparr>, sc + 1) else (ob1, sc))"

fun forObstacles :: "real \<Rightarrow> real \<Rightarrow> obstacle list \<Rightarrow> int \<Rightarrow> obstacle list \<times> int" where
  "forObstacles dt playerX [] sc = ([], sc)"
| "forObstacles dt playerX (ob # rest) sc =
     (case obstacleBody dt playerX ob sc of
        (ob', sc') \<Rightarrow>
          (case forObstacles dt playerX rest sc' of
             (rest', sc'') \<Rightarrow> (ob' # rest', sc'')))"

definition updateObstacles :: "real \<Rightarrow> game \<Rightarrow> game" where
  "updateObstacles dt g =
     (case forObstacles dt (px (playerRef g)) (obstaclesRef g) (score g) of
        (list, sc) \<Rightarrow>
          g\<lparr>obstaclesRef := filter (\<lambda>ob. ox ob + owidth ob > - 50) list, score := sc\<rparr>)"

subsection \<open>Collision detection\<close>

definition rectIntersect :: "player \<Rightarrow> rect \<Rightarrow> bool" where
  "rectIntersect p r =
     (\<not> (px p + pwidth p < rx r \<or> px p > rx r + rw r \<or>
         py p + pheight p < ry r \<or> py p > ry r + rh r))"

definition topRect :: "obstacle \<Rightarrow> rect" where
  "topRect ob = \<lparr>rx = ox ob, ry = 0, rw = owidth ob, rh = gapTop ob\<rparr>"

definition bottomRect :: "obstacle \<Rightarrow> rect" where
  "bottomRect ob =
     \<lparr>rx = ox ob, ry = gapTop ob + gapHeight ob, rw = owidth ob,
      rh = GAME_HEIGHT - (gapTop ob + gapHeight ob)\<rparr>"

text \<open>The \<open>for\<close> loop of \<open>detectCollisions\<close>: it returns at the first obstacle that is hit.\<close>

fun anyHit :: "player \<Rightarrow> obstacle list \<Rightarrow> bool" where
  "anyHit p [] = False"
| "anyHit p (ob # rest) =
     (if rectIntersect p (topRect ob) \<or> rectIntersect p (bottomRect ob) then True
      else anyHit p rest)"

definition detectCollisions :: "render \<Rightarrow> game \<Rightarrow> game" where
  "detectCollisions c g =
     (if anyHit (playerRef g) (obstaclesRef g) then stopGame c True g else g)"

subsection \<open>The frame loop\<close>

text \<open>
  The parts of \<open>loop\<close>: the frame delta (\<open>!lastTimeRef.current\<close> holds for \<open>null\<close> and
  for 0), the spawn on the spawn clock, and the player update on the player cell.
\<close>

definition frameDelta :: "real \<Rightarrow> game \<Rightarrow> real" where
  "frameDelta timestamp g =
     timestamp - (case lastTimeRef g of None \<Rightarrow> timestamp
                  | Some l \<Rightarrow> if l = 0 then timestamp else l)"

definition spawnIfDue :: "real \<Rightarrow> draws \<Rightarrow> game \<Rightarrow> game" where
  "spawnIfDue timestamp rnd g =
     (if timestamp - lastSpawnRef g > OBSTACLE_INTERVAL \<or> lastSpawnRef g = 0
      then (spawnObstacle rnd g)\<lparr>lastSpawnRef := timestamp\<rparr> else g)"

definition movePlayer :: "real \<Rightarrow> game \<Rightarrow> game" where
  "movePlayer dt g = g\<lparr>playerRef := updatePlayer (keysRef g) dt (playerRef g)\<rparr>"

text \<open>\<open>loop\<close> up to and including \<open>updateObstacles\<close>.\<close>

definition advance :: "real \<Rightarrow> draws \<Rightarrow> game \<Rightarrow> game" where
  "advance timestamp rnd g =
     (let dt = frameDelta timestamp g
      in updateObstacles dt
           (movePlayer dt (spawnIfDue timestamp rnd (g\<lparr>lastTimeRef := Some timestamp\<rparr>))))"

text \<open>
  \<open>loop\<close> of the render \<open>c\<close>: its last statement tests the \<open>running\<close> of that render and
  requests the next frame for itself.
\<close>

definition loop :: "render \<Rightarrow> real \<Rightarrow> draws \<Rightarrow> game \<Rightarrow> game" where
  "loop c timestamp rnd g =
     (let g5 = detectCollisions c (advance timestamp rnd g)
      in if rRunning c then g5\<lparr>framePending := Some c\<rparr> else g5)"

subsection \<open>Events\<close>

definition onKeyDown :: "render \<Rightarrow> string \<Rightarrow> game \<Rightarrow> game" where
  "onKeyDown c code g0 =
     (let g1 = g0\<lparr>keysRef := (keysRef g0)(code \<mapsto> True)\<rparr>;
          g2 = (if rRunning c \<and> (code = ''Space'' \<or> code = ''ArrowUp'')
                then g1\<lparr>playerRef := jump (playerRef g1)\<rparr> else g1)
      in if \<not> rRunning c \<and> rGameOver c \<and> code = ''Enter'' then startGame c g2 else g2)"

definition onKeyUp :: "string \<Rightarrow> game \<Rightarrow> game" where
  "onKeyUp code g = g\<lparr>keysRef := (keysRef g)(code \<mapsto> False)\<rparr>"

text \<open>
  What can happen to the component: a click on Start or Restart (both call \<open>startGame\<close>),
  a key going down or up, and the browser delivering an animation frame. A click and a
  key going down run the handler of some render, which the event names. The browser runs
  the \<open>loop\<close> that was requested, only while the request is pending, and the request is
  spent by running it.
\<close>

datatype event =
    Click render
  | KeyDown render string
  | KeyUp string
  | Frame real draws

fun fire :: "event \<Rightarrow> game \<Rightarrow> game" where
  "fire (Click c) g = startGame c g"
| "fire (KeyDown c code) g = onKeyDown c code g"
| "fire (KeyUp code) g = onKeyUp code g"
| "fire (Frame timestamp rnd) g =
     (case framePending g of
        None \<Rightarrow> g
      | Some c \<Rightarrow> loop c timestamp rnd (g\<lparr>framePending := None\<rparr>))"

fun run :: "event list \<Rightarrow> game \<Rightarrow> game" where
  "run [] g = g"
| "run (e # es) g = run es (fire e g)"

subsection \<open>Notions used to state the properties\<close>

text \<open>The player lies inside the play field.\<close>

definition inBounds :: "player \<Rightarrow> bool" where
  "inBounds p =
     (0 \<le> px p \<and> px p \<le> GAME_WIDTH - pwidth p \<and> 0 \<le> py p \<and> py p \<le> GAME_HEIGHT - pheight p)"

text \<open>The player has the size every player object of the component is created with.\<close>

definition sized :: "game \<Rightarrow> bool" where
  "sized g = (pwidth (playerRef g) = PLAYER_SIZE \<and> pheight (playerRef g) = PLAYER_SIZE)"

text \<open>
  The specification's reading of the intersection test: the closed intervals that the two
  rectangles cover meet on the horizontal axis and on the vertical axis.
\<close>

definition overlapOnBothAxes :: "player \<Rightarrow> rect \<Rightarrow> bool" where
  "overlapOnBothAxes p r =
     ({px p .. px p + pwidth p} \<inter> {rx r .. rx r + rw r} \<noteq> {} \<and>
      {py p .. py p + pheight p} \<inter> {ry r .. ry r + rh r} \<noteq> {})"

text \<open>The number of live obstacles that have not been scored yet.\<close>

definition unpassed :: "game \<Rightarrow> int" where
  "unpassed g = int (length (filter (\<lambda>ob. \<not> passed ob) (obstaclesRef g)))"

text \<open>
  Repeated calls of \<open>updateObstacles\<close>, each with its own frame delta; between two calls
  the player may have moved anywhere.
\<close>

fun updates :: "(real \<times> player) list \<Rightarrow> game \<Rightarrow> game" where
  "updates [] g = g"
| "updates ((dt, p) # rest) g = updates rest (updateObstacles dt (g\<lparr>playerRef := p\<rparr>))"

subsection \<open>Concrete inputs\<close>

definition zeroDraws :: draws where
  "zeroDraws = \<lparr>d1 = 0, d2 = 0, d3 = 0, d4 = 0, now = 0\<rparr>"

text \<open>A player resting on the floor, and one at the ceiling that has just jumped.\<close>

definition floorPlayer :: player where
  "floorPlayer = \<lparr>px = 175, py = 466, pvy = 0, pwidth = 34, pheight = 34\<rparr>"

definition ceilingPlayer :: player where
  "ceilingPlayer = \<lparr>px = 175, py = 0, pvy = - 14, pwidth = 34, pheight = 34\<rparr>"

definition bothKeys :: "string \<rightharpoonup> bool" where
  "bothKeys = [''ArrowLeft'' \<mapsto> True, ''ArrowRight'' \<mapsto> True]"

text \<open>
  A player whose right edge is flush against the left edge of the top barrier of an
  obstacle, and a game in which the two stand so.
\<close>

definition flushPlayer :: player where
  "flushPlayer = \<lparr>px = 100, py = 10, pvy = 0, pwidth = 34, pheight = 34\<rparr>"

definition flushRect :: rect where
  "flushRect = \<lparr>rx = 134, ry = 0, rw = 70, rh = 40\<rparr>"

definition flushObstacle :: obstacle where
  "flushObstacle =
     \<lparr>ox = 134, gapTop = 40, gapHeight = 120, owidth = 70, speed = 3.2,
      passed = False, oid = 0\<rparr>"

definition someDraws :: draws where
  "someDraws = \<lparr>d1 = 1/2, d2 = 3/4, d3 = 1/4, d4 = 1/8, now = 1000\<rparr>"

text \<open>The render of the idle component, and the render of a running game.\<close>

definition idleRender :: render where
  "idleRender = \<lparr>rRunning = False, rScore = 0, rBest = 0, rGameOver = False\<rparr>"

definition runningRender :: render where
  "runningRender = \<lparr>rRunning = True, rScore = 0, rBest = 0, rGameOver = False\<rparr>"

definition flushGame :: game where
  "flushGame =
     \<lparr>running = True, score = 0, best = 0, gameOver = False,
      playerRef = flushPlayer, obstaclesRef = [flushObstacle],
      keysRef = Map.empty, lastSpawnRef = 10, framePending = None, lastTimeRef = Some 10\<rparr>"



lemmas constants =
  GAME_WIDTH_def GAME_HEIGHT_def PLAYER_SIZE_def GRAVITY_def JUMP_VELOCITY_def
  HORIZ_SPEED_def OBSTACLE_WIDTH_def GAP_MIN_def GAP_MAX_def OBSTACLE_INTERVAL_def
  OBSTACLE_SPEED_def

section \<open>Player kinematics\<close>

lemma horizontal_fields:
  "py (horizontal ks p) = py p" "pvy (horizontal ks p) = pvy p"
  "pwidth (horizontal ks p) = pwidth p" "pheight (horizontal ks p) = pheight p"
  "px (horizontal ks p) =
     (if held ks ''ArrowLeft'' then px p - HORIZ_SPEED else px p) +
     (if held ks ''ArrowRight'' then HORIZ_SPEED else 0)"
  by (simp_all add: horizontal_def Let_def)

lemma boundsClamp_fields:
  "py (boundsClamp p) = py p" "pvy (boundsClamp p) = pvy p"
  "pwidth (boundsClamp p) = pwidth p" "pheight (boundsClamp p) = pheight p"
  "px (boundsClamp p) = max 0 (min (GAME_WIDTH - pwidth p) (px p))"
  by (simp_all add: boundsClamp_def)

lemma gravityVertical_fields:
  "px (gravityVertical dt p) = px p"
  "pwidth (gravityVertical dt p) = pwidth p" "pheight (gravityVertical dt p) = pheight p"
  "pvy (gravityVertical dt p) = pvy p + GRAVITY * min (dt / 16.6667) 2"
  "py (gravityVertical dt p) = py p + (pvy p + GRAVITY * min (dt / 16.6667) 2) * (dt / 16.6667)"
  by (simp_all add: gravityVertical_def Let_def)

lemma clampVertical_fields:
  "px (clampVertical p) = px p" "pvy (clampVertical p) = pvy p"
  "pwidth (clampVertical p) = pwidth p" "pheight (clampVertical p) = pheight p"
  "py (clampVertical p) = max 0 (min (GAME_HEIGHT - pheight p) (py p))"
  by (simp_all add: clampVertical_def)

lemma floorCeiling_fields:
  "px (floorCeiling p) = px p"
  "pwidth (floorCeiling p) = pwidth p" "pheight (floorCeiling p) = pheight p"
  by (simp_all add: floorCeiling_def Let_def)

lemma floorCeiling_id:
  "0 \<le> py p \<Longrightarrow> py p \<le> GAME_HEIGHT - pheight p \<Longrightarrow> floorCeiling p = p"
  by (simp add: floorCeiling_def)

lemmas player_fields =
  horizontal_fields boundsClamp_fields gravityVertical_fields clampVertical_fields
  floorCeiling_fields

text \<open>After the vertical clamp neither branch of the floor and ceiling check can be taken.\<close>

lemma updatePlayer_eq:
  assumes "pheight p \<le> GAME_HEIGHT"
  shows "updatePlayer ks dt p =
           clampVertical (gravityVertical dt (boundsClamp (horizontal ks p)))"
proof -
  let ?q = "gravityVertical dt (boundsClamp (horizontal ks p))"
  have "pheight ?q \<le> GAME_HEIGHT"
    using assms by (simp only: player_fields)
  then have "0 \<le> py (clampVertical ?q)"
    and "py (clampVertical ?q) \<le> GAME_HEIGHT - pheight (clampVertical ?q)"
    by (simp_all add: clampVertical_fields)
  then show ?thesis
    unfolding updatePlayer_def by (rule floorCeiling_id)
qed

lemma updatePlayer_pvy:
  "pheight p \<le> GAME_HEIGHT \<Longrightarrow>
   pvy (updatePlayer ks dt p) = pvy p + GRAVITY * min (dt / 16.6667) 2"
  by (simp only: updatePlayer_eq player_fields)

lemma updatePlayer_size:
  "pwidth (updatePlayer ks dt p) = pwidth p" "pheight (updatePlayer ks dt p) = pheight p"
  by (simp_all only: updatePlayer_def player_fields)

lemma updatePlayer_px:
  "px (updatePlayer ks dt p) =
     max 0 (min (GAME_WIDTH - pwidth p)
       ((if held ks ''ArrowLeft'' then px p - HORIZ_SPEED else px p) +
        (if held ks ''ArrowRight'' then HORIZ_SPEED else 0)))"
  by (simp only: updatePlayer_def player_fields)

lemma updatePlayer_py:
  "pheight p \<le> GAME_HEIGHT \<Longrightarrow>
   py (updatePlayer ks dt p) =
     max 0 (min (GAME_HEIGHT - pheight p)
       (py p + (pvy p + GRAVITY * min (dt / 16.6667) 2) * (dt / 16.6667)))"
  by (simp only: updatePlayer_eq player_fields)

lemma updatePlayer_inBounds:
  assumes "pwidth p \<le> GAME_WIDTH" and "pheight p \<le> GAME_HEIGHT"
  shows "inBounds (updatePlayer ks dt p)"
  unfolding inBounds_def
  using assms by (simp only: updatePlayer_px updatePlayer_py updatePlayer_size) simp

text \<open>
  C1. \<open>updatePlayer\<close> clamps \<open>y\<close> into \<open>[0, GAME_HEIGHT - height]\<close>, and the source means
  to zero \<open>vy\<close> at the floor and at the ceiling. The check that would do so runs after the
  clamp and so never fires (\<open>updatePlayer_eq\<close>, \<open>updatePlayer_pvy\<close>): a player resting on the
  floor (\<open>y = 466\<close>, \<open>vy = 0\<close>) is held at \<open>y = 466\<close> by one frame of 16.6667 ms and
  leaves it with \<open>vy = 0.9\<close>, and a player at the ceiling that has just jumped
  (\<open>y = 0\<close>, \<open>vy = -14\<close>) is held at \<open>y = 0\<close> and leaves with \<open>vy = -13.1\<close>.
\<close>

theorem updatePlayer_clamp_keeps_vy:
  "py (updatePlayer Map.empty 16.6667 floorPlayer) = 466 \<and>
   pvy (updatePlayer Map.empty 16.6667 floorPlayer) = 0.9 \<and>
   py (updatePlayer Map.empty 16.6667 ceilingPlayer) = 0 \<and>
   pvy (updatePlayer Map.empty 16.6667 ceilingPlayer) = - 13.1"
  by (simp add: updatePlayer_def horizontal_def boundsClamp_def gravityVertical_def
      clampVertical_def floorCeiling_def Let_def held_def floorPlayer_def ceilingPlayer_def
      constants)

text \<open>
  C8. When both \<open>ArrowLeft\<close> and \<open>ArrowRight\<close> are held, \<open>updatePlayer\<close> gives the same
  \<open>x\<close> as with neither held, from the same player: the two moves cancel and only the
  clamp into \<open>[0, GAME_WIDTH - width]\<close> acts.
\<close>

theorem opposite_keys_cancel:
  "held ks ''ArrowLeft'' \<Longrightarrow> held ks ''ArrowRight'' \<Longrightarrow>
   \<not> held ks' ''ArrowLeft'' \<Longrightarrow> \<not> held ks' ''ArrowRight'' \<Longrightarrow>
   px (updatePlayer ks dt p) = px (updatePlayer ks' dt p) \<and>
   px (updatePlayer ks dt p) = max 0 (min (GAME_WIDTH - pwidth p) (px p))"
  by (simp add: updatePlayer_px)

theorem opposite_keys_cancel_witness:
  "held bothKeys ''ArrowLeft'' \<and> held bothKeys ''ArrowRight'' \<and>
   \<not> held Map.empty ''ArrowLeft'' \<and> \<not> held Map.empty ''ArrowRight'' \<and>
   px (updatePlayer bothKeys 16.6667 initialPlayer) =
     px (updatePlayer Map.empty 16.6667 initialPlayer) \<and>
   px (updatePlayer bothKeys 16.6667 initialPlayer) = 175"
  using opposite_keys_cancel [of bothKeys Map.empty "16.6667" initialPlayer]
  by (simp add: held_def bothKeys_def initialPlayer_def constants)

section \<open>The frame loop and the play field\<close>

lemma spawnObstacle_frame:
  "playerRef (spawnObstacle rnd g) = playerRef g" "keysRef (spawnObstacle rnd g) = keysRef g"
  "best (spawnObstacle rnd g) = best g" "running (spawnObstacle rnd g) = running g"
  "framePending (spawnObstacle rnd g) = framePending g" "score (spawnObstacle rnd g) = score g"
  "gameOver (spawnObstacle rnd g) = gameOver g"
  by (simp_all add: spawnObstacle_def Let_def)

lemma spawnIfDue_frame:
  "playerRef (spawnIfDue t rnd g) = playerRef g" "keysRef (spawnIfDue t rnd g) = keysRef g"
  "best (spawnIfDue t rnd g) = best g" "running (spawnIfDue t rnd g) = running g"
  "framePending (spawnIfDue t rnd g) = framePending g" "score (spawnIfDue t rnd g) = score g"
  "gameOver (spawnIfDue t rnd g) = gameOver g"
  by (simp_all add: spawnIfDue_def spawnObstacle_frame)

lemma movePlayer_frame:
  "playerRef (movePlayer dt g) = updatePlayer (keysRef g) dt (playerRef g)"
  "best (movePlayer dt g) = best g" "running (movePlayer dt g) = running g"
  "framePending (movePlayer dt g) = framePending g" "score (movePlayer dt g) = score g"
  "gameOver (movePlayer dt g) = gameOver g" "obstaclesRef (movePlayer dt g) = obstaclesRef g"
  by (simp_all add: movePlayer_def)

lemma updateObstacles_frame:
  "playerRef (updateObstacles dt g) = playerRef g"
  "best (updateObstacles dt g) = best g" "running (updateObstacles dt g) = running g"
  "framePending (updateObstacles dt g) = framePending g"
  "gameOver (updateObstacles dt g) = gameOver g"
  by (simp_all add: updateObstacles_def split: prod.splits)

lemma advance_frame:
  "playerRef (advance t rnd g) = updatePlayer (keysRef g) (frameDelta t g) (playerRef g)"
  "best (advance t rnd g) = best g" "running (advance t rnd g) = running g"
  "framePending (advance t rnd g) = framePending g"
  "gameOver (advance t rnd g) = gameOver g"
  by (simp_all add: advance_def Let_def updateObstacles_frame movePlayer_frame spawnIfDue_frame)

lemma detectCollisions_player: "playerRef (detectCollisions c g) = playerRef g"
  by (simp add: detectCollisions_def stopGame_def)

lemma loop_player:
  "playerRef (loop c t rnd g) = updatePlayer (keysRef g) (frameDelta t g) (playerRef g)"
  by (simp add: loop_def Let_def detectCollisions_player advance_frame)

lemma sized_initialPlayer: "pwidth initialPlayer = PLAYER_SIZE \<and> pheight initialPlayer = PLAYER_SIZE"
  by (simp add: initialPlayer_def)

lemma startGame_player: "playerRef (startGame c g) = initialPlayer"
  by (simp add: startGame_def resetGame_def)

lemma sized_fire: "sized g \<Longrightarrow> sized (fire e g)"
proof (cases e)
  case (Click c)
  then show ?thesis by (simp add: sized_def startGame_player sized_initialPlayer)
next
  case (KeyDown c code)
  assume "sized g"
  then show ?thesis unfolding KeyDown
    by (simp add: sized_def onKeyDown_def Let_def jump_def startGame_player sized_initialPlayer)
next
  case (KeyUp code)
  assume "sized g"
  then show ?thesis unfolding KeyUp by (simp add: sized_def onKeyUp_def)
next
  case (Frame t rnd)
  assume "sized g"
  then show ?thesis unfolding Frame
    by (simp add: sized_def loop_player updatePlayer_size split: option.splits)
qed

lemma sized_run: "sized g \<Longrightarrow> sized (run evs g)"
  by (induction evs arbitrary: g) (simp_all add: sized_fire)

text \<open>
  C3. From every state whose player has the size of the component's player objects, after
  every sequence of events (clicks, keys going down and up, among them jumps, and
  frames), a call of \<open>loop\<close>, of any render and with any timestamp, leaves the player
  inside the play field:
  \<open>0 \<le> x \<le> GAME_WIDTH - width\<close> and \<open>0 \<le> y \<le> GAME_HEIGHT - height\<close>.
\<close>

theorem player_stays_in_bounds:
  assumes "sized g"
  shows "inBounds (playerRef (loop c t rnd (run evs g)))"
proof -
  have "sized (run evs g)" using assms by (rule sized_run)
  then have "pwidth (playerRef (run evs g)) \<le> GAME_WIDTH"
    and "pheight (playerRef (run evs g)) \<le> GAME_HEIGHT"
    by (simp_all add: sized_def constants)
  then show ?thesis
    unfolding loop_player by (rule updatePlayer_inBounds)
qed

theorem player_stays_in_bounds_witness:
  "sized (initialGame 0) \<and>
   inBounds (playerRef (loop idleRender 16.6667 zeroDraws
     (run [Click idleRender, KeyDown runningRender ''ArrowLeft'',
           KeyDown runningRender ''Space''] (initialGame 0))))"
  using player_stays_in_bounds [of "initialGame 0" idleRender "16.6667" zeroDraws
      "[Click idleRender, KeyDown runningRender ''ArrowLeft'',
        KeyDown runningRender ''Space'']"]
  by (simp add: sized_def initialGame_def initialPlayer_def)

section \<open>Collision geometry\<close>

lemma rectIntersect_overlap:
  assumes "0 \<le> pwidth p" and "0 \<le> pheight p" and "0 \<le> rw r" and "0 \<le> rh r"
  shows "rectIntersect p r = overlapOnBothAxes p r"
  using assms by (auto simp: rectIntersect_def overlapOnBothAxes_def)

lemma anyHit_iff:
  "anyHit p obs =
     (\<exists>ob \<in> set obs. rectIntersect p (topRect ob) \<or> rectIntersect p (bottomRect ob))"
  by (induction obs) auto

lemma barrier_overlap:
  assumes "0 \<le> pwidth p" and "0 \<le> pheight p"
    and "0 \<le> owidth ob" and "0 \<le> gapTop ob" and "gapTop ob + gapHeight ob \<le> GAME_HEIGHT"
  shows "rectIntersect p (topRect ob) = overlapOnBothAxes p (topRect ob)"
    and "rectIntersect p (bottomRect ob) = overlapOnBothAxes p (bottomRect ob)"
  using assms by (simp_all add: rectIntersect_overlap topRect_def bottomRect_def)

lemma detectCollisions_hit:
  "anyHit (playerRef g) (obstaclesRef g) \<Longrightarrow>
   gameOver (detectCollisions c g) \<and> \<not> running (detectCollisions c g)"
  by (simp add: detectCollisions_def stopGame_def)

text \<open>
  C5. For a player and a rectangle of non-negative extent, \<open>rectIntersect\<close> holds exactly
  when their closed intervals meet on both axes; in particular it holds when the player's
  right edge is flush against the rectangle's left edge and the vertical intervals meet.
  So \<open>detectCollisions\<close> finds a hit exactly when the player's closed region meets the
  closed region of the top or of the bottom barrier of a live obstacle; a player inside
  the play field with a vertical edge flush against the vertical edge of an obstacle, and
  not strictly inside its gap, is hit; and on a hit \<open>detectCollisions\<close> ends the game.
\<close>

theorem rectIntersect_closed_overlap:
  assumes "0 \<le> pwidth p" and "0 \<le> pheight p" and "0 \<le> rw r" and "0 \<le> rh r"
    and "\<forall>ob \<in> set obs. 0 \<le> owidth ob \<and> 0 \<le> gapTop ob \<and> gapTop ob + gapHeight ob \<le> GAME_HEIGHT"
  shows "rectIntersect p r = overlapOnBothAxes p r \<and>
         (px p + pwidth p = rx r \<and> py p \<le> ry r + rh r \<and> ry r \<le> py p + pheight p
            \<longrightarrow> rectIntersect p r) \<and>
         anyHit p obs =
           (\<exists>ob \<in> set obs. overlapOnBothAxes p (topRect ob) \<or>
                             overlapOnBothAxes p (bottomRect ob)) \<and>
         (\<forall>ob \<in> set obs.
            (px p + pwidth p = ox ob \<or> px p = ox ob + owidth ob) \<and>
            0 \<le> py p \<and> py p + pheight p \<le> GAME_HEIGHT \<and>
            (py p \<le> gapTop ob \<or> gapTop ob + gapHeight ob \<le> py p + pheight p)
            \<longrightarrow> anyHit p obs) \<and>
         (anyHit (playerRef g) (obstaclesRef g) \<longrightarrow>
            gameOver (detectCollisions c g) \<and> \<not> running (detectCollisions c g))"
proof -
  have rect: "rectIntersect p r = overlapOnBothAxes p r"
    using assms(1-4) by (rule rectIntersect_overlap)
  have flush: "px p + pwidth p = rx r \<and> py p \<le> ry r + rh r \<and> ry r \<le> py p + pheight p
                 \<longrightarrow> rectIntersect p r"
    using assms(1,3) by (auto simp: rectIntersect_def)
  have hit: "anyHit p obs =
      (\<exists>ob \<in> set obs. overlapOnBothAxes p (topRect ob) \<or> overlapOnBothAxes p (bottomRect ob))"
    unfolding anyHit_iff using assms(1,2,5) by (auto simp: barrier_overlap)
  have edge: "\<forall>ob \<in> set obs.
      (px p + pwidth p = ox ob \<or> px p = ox ob + owidth ob) \<and>
      0 \<le> py p \<and> py p + pheight p \<le> GAME_HEIGHT \<and>
      (py p \<le> gapTop ob \<or> gapTop ob + gapHeight ob \<le> py p + pheight p)
      \<longrightarrow> anyHit p obs"
  proof
    fix ob
    assume ob: "ob \<in> set obs"
    then have "0 \<le> owidth ob" using assms(5) by simp
    then show "(px p + pwidth p = ox ob \<or> px p = ox ob + owidth ob) \<and>
      0 \<le> py p \<and> py p + pheight p \<le> GAME_HEIGHT \<and>
      (py p \<le> gapTop ob \<or> gapTop ob + gapHeight ob \<le> py p + pheight p)
      \<longrightarrow> anyHit p obs"
      unfolding anyHit_iff using ob assms(1,2)
      by (intro impI bexI[of _ ob]) (auto simp: rectIntersect_def topRect_def bottomRect_def)
  qed
  have "anyHit (playerRef g) (obstaclesRef g) \<longrightarrow>
          gameOver (detectCollisions c g) \<and> \<not> running (detectCollisions c g)"
    by (simp add: detectCollisions_hit)
  with rect flush hit edge show ?thesis by (intro conjI)
qed

theorem rectIntersect_closed_overlap_witness:
  "0 \<le> pwidth flushPlayer \<and> 0 \<le> pheight flushPlayer \<and> 0 \<le> rw flushRect \<and> 0 \<le> rh flushRect \<and>
   px flushPlayer + pwidth flushPlayer = rx flushRect \<and>
   px flushPlayer + pwidth flushPlayer = ox flushObstacle \<and>
   rectIntersect flushPlayer flushRect \<and> overlapOnBothAxes flushPlayer flushRect \<and>
   anyHit flushPlayer [flushObstacle] \<and>
   anyHit (playerRef flushGame) (obstaclesRef flushGame) \<and>
   gameOver (detectCollisions runningRender flushGame) \<and>
   \<not> running (detectCollisions runningRender flushGame)"
proof -
  have dims: "0 \<le> pwidth flushPlayer \<and> 0 \<le> pheight flushPlayer \<and>
      0 \<le> rw flushRect \<and> 0 \<le> rh flushRect"
    by (simp add: flushPlayer_def flushRect_def)
  have obs: "\<forall>ob \<in> set [flushObstacle].
      0 \<le> owidth ob \<and> 0 \<le> gapTop ob \<and> gapTop ob + gapHeight ob \<le> GAME_HEIGHT"
    by (simp add: flushObstacle_def constants)
  have edges: "px flushPlayer + pwidth flushPlayer = rx flushRect \<and>
      px flushPlayer + pwidth flushPlayer = ox flushObstacle \<and>
      py flushPlayer \<le> ry flushRect + rh flushRect \<and>
      ry flushRect \<le> py flushPlayer + pheight flushPlayer \<and>
      0 \<le> py flushPlayer \<and> py flushPlayer + pheight flushPlayer \<le> GAME_HEIGHT \<and>
      py flushPlayer \<le> gapTop flushObstacle"
    by (simp add: flushPlayer_def flushRect_def flushObstacle_def constants)
  have game: "playerRef flushGame = flushPlayer \<and> obstaclesRef flushGame = [flushObstacle]"
    by (simp add: flushGame_def)
  have dim: "0 \<le> pwidth flushPlayer" "0 \<le> pheight flushPlayer"
    "0 \<le> rw flushRect" "0 \<le> rh flushRect"
    using dims by simp_all
  note fact = rectIntersect_closed_overlap
    [of flushPlayer flushRect "[flushObstacle]" flushGame runningRender, OF dim obs]
  have a: "rectIntersect flushPlayer flushRect"
    using fact edges by blast
  have b: "overlapOnBothAxes flushPlayer flushRect"
    using fact a by blast
  have c: "anyHit flushPlayer [flushObstacle]"
    using fact [THEN conjunct2, THEN conjunct2, THEN conjunct2, THEN conjunct1] edges
    by (simp del: anyHit.simps)
  have d: "gameOver (detectCollisions runningRender flushGame) \<and>
      \<not> running (detectCollisions runningRender flushGame)"
    using fact [THEN conjunct2, THEN conjunct2, THEN conjunct2, THEN conjunct2] c game
    by (simp del: anyHit.simps)
  from dims edges a b c d game show ?thesis
    by (simp del: anyHit.simps)
qed

section \<open>Spawning\<close>

lemma randomBetween_Ints: "a \<in> \<int> \<Longrightarrow> randomBetween r a b \<in> \<int>"
  by (simp add: randomBetween_def)

lemma randomBetween_range:
  assumes "a \<in> \<int>" and "b \<in> \<int>" and "a \<le> b" and "0 \<le> r" and "r < 1"
  shows "a \<le> randomBetween r a b \<and> randomBetween r a b \<le> b"
proof -
  from assms(1,2) have "b - a + 1 \<in> \<int>" by simp
  then obtain k :: int where k: "b - a + 1 = of_int k" by (elim Ints_cases)
  from assms(3) have pos: "0 < b - a + 1" by simp
  have lo: "0 \<le> r * (b - a + 1)" using assms(4) pos by simp
  have "r * (b - a + 1) < b - a + 1" using assms(5) pos by simp
  then have "r * (b - a + 1) < of_int k" by (simp only: k)
  then have "\<lfloor>r * (b - a + 1)\<rfloor> < k" by (simp only: floor_less_iff)
  then have "\<lfloor>r * (b - a + 1)\<rfloor> \<le> k - 1" by simp
  then have "(of_int \<lfloor>r * (b - a + 1)\<rfloor> :: real) \<le> of_int (k - 1)"
    by (simp only: of_int_le_iff)
  then have hi: "(of_int \<lfloor>r * (b - a + 1)\<rfloor> :: real) \<le> b - a"
    using k by simp
  from lo have "0 \<le> \<lfloor>r * (b - a + 1)\<rfloor>" by simp
  then have "(0::real) \<le> of_int \<lfloor>r * (b - a + 1)\<rfloor>" by simp
  with hi show ?thesis by (simp add: randomBetween_def)
qed

lemma newObstacle_gapHeight:
  assumes "0 \<le> d1 rnd" and "d1 rnd < 1"
  shows "gapHeight (newObstacle rnd) \<in> \<int> \<and> GAP_MIN \<le> gapHeight (newObstacle rnd) \<and>
         gapHeight (newObstacle rnd) \<le> GAP_MAX"
proof -
  have "GAP_MIN \<in> \<int>" "GAP_MAX \<in> \<int>" "GAP_MIN \<le> GAP_MAX" by (simp_all add: constants)
  from randomBetween_range[OF this assms] randomBetween_Ints[OF this(1)]
  show ?thesis by (simp add: newObstacle_def Let_def)
qed

lemma newObstacle_gapTop:
  assumes "0 \<le> d1 rnd" and "d1 rnd < 1" and "0 \<le> d2 rnd" and "d2 rnd < 1"
  shows "40 \<le> gapTop (newObstacle rnd) \<and>
         gapTop (newObstacle rnd) \<le> GAME_HEIGHT - gapHeight (newObstacle rnd) - 40"
proof -
  let ?h = "gapHeight (newObstacle rnd)"
  from newObstacle_gapHeight[OF assms(1,2)]
  have h: "?h \<in> \<int>" "?h \<le> GAP_MAX" by simp_all
  have a: "(40::real) \<in> \<int>" by simp
  have b: "GAME_HEIGHT - ?h - 40 \<in> \<int>" using h(1) by (simp add: constants)
  have c: "40 \<le> GAME_HEIGHT - ?h - 40" using h(2) by (simp add: constants)
  have "gapTop (newObstacle rnd) = randomBetween (d2 rnd) 40 (GAME_HEIGHT - ?h - 40)"
    by (simp add: newObstacle_def Let_def)
  with randomBetween_range[OF a b c assms(3,4)] show ?thesis by simp
qed

lemma newObstacle_Ints:
  "gapHeight (newObstacle rnd) \<in> \<int> \<and> gapTop (newObstacle rnd) \<in> \<int>"
  by (simp add: newObstacle_def Let_def randomBetween_Ints constants)

lemma spawnObstacle_last: "last (obstaclesRef (spawnObstacle rnd g)) = newObstacle rnd"
  by (cases "obstaclesRef g") (simp_all add: spawnObstacle_def Let_def)

text \<open>
  C6. Whenever the first two draws lie in \<open>[0, 1)\<close>, the obstacle that \<open>spawnObstacle\<close>
  appends has \<open>GAP_MIN \<le> gapHeight \<le> GAP_MAX\<close> and
  \<open>40 \<le> gapTop \<le> GAME_HEIGHT - gapHeight - 40\<close>, so that its top and bottom barriers are
  both at least 40 high.
\<close>

theorem spawnObstacle_gap_bounds:
  assumes "0 \<le> d1 rnd" and "d1 rnd < 1" and "0 \<le> d2 rnd" and "d2 rnd < 1"
  shows "GAP_MIN \<le> gapHeight (last (obstaclesRef (spawnObstacle rnd g))) \<and>
         gapHeight (last (obstaclesRef (spawnObstacle rnd g))) \<le> GAP_MAX \<and>
         40 \<le> gapTop (last (obstaclesRef (spawnObstacle rnd g))) \<and>
         gapTop (last (obstaclesRef (spawnObstacle rnd g)))
           \<le> GAME_HEIGHT - gapHeight (last (obstaclesRef (spawnObstacle rnd g))) - 40 \<and>
         40 \<le> rh (topRect (last (obstaclesRef (spawnObstacle rnd g)))) \<and>
         40 \<le> rh (bottomRect (last (obstaclesRef (spawnObstacle rnd g))))"
  using newObstacle_gapHeight[OF assms(1,2)] newObstacle_gapTop[OF assms]
  by (simp add: spawnObstacle_last topRect_def bottomRect_def)

theorem spawnObstacle_gap_bounds_witness:
  "0 \<le> d1 someDraws \<and> d1 someDraws < 1 \<and> 0 \<le> d2 someDraws \<and> d2 someDraws < 1 \<and>
   gapHeight (last (obstaclesRef (spawnObstacle someDraws (initialGame 0)))) = 150 \<and>
   gapTop (last (obstaclesRef (spawnObstacle someDraws (initialGame 0)))) = 243 \<and>
   GAP_MIN \<le> gapHeight (last (obstaclesRef (spawnObstacle someDraws (initialGame 0)))) \<and>
   40 \<le> rh (bottomRect (last (obstaclesRef (spawnObstacle someDraws (initialGame 0)))))"
  using spawnObstacle_gap_bounds [of someDraws "initialGame 0"]
  by (simp add: someDraws_def spawnObstacle_def newObstacle_def randomBetween_def Let_def
      initialGame_def constants)

text \<open>
  C10. For integers \<open>a \<le> b\<close> and a draw in \<open>[0, 1)\<close>, \<open>randomBetween\<close> returns an integer
  of \<open>[a, b]\<close>; and whatever the draws are, the obstacle that \<open>spawnObstacle\<close> appends has
  an integer \<open>gapHeight\<close> and an integer \<open>gapTop\<close>.
\<close>

theorem randomBetween_integer:
  "(a \<in> \<int> \<and> b \<in> \<int> \<and> a \<le> b \<and> 0 \<le> r \<and> r < 1 \<longrightarrow>
      randomBetween r a b \<in> \<int> \<and> a \<le> randomBetween r a b \<and> randomBetween r a b \<le> b) \<and>
   gapHeight (last (obstaclesRef (spawnObstacle rnd g))) \<in> \<int> \<and>
   gapTop (last (obstaclesRef (spawnObstacle rnd g))) \<in> \<int>"
  using randomBetween_range[of a b r] randomBetween_Ints[of a r b] newObstacle_Ints[of rnd]
  by (simp add: spawnObstacle_last)

theorem randomBetween_integer_witness:
  "(120::real) \<in> \<int> \<and> (180::real) \<in> \<int> \<and> (120::real) \<le> 180 \<and> (0::real) \<le> 1/2 \<and> (1/2::real) < 1 \<and>
   randomBetween (1/2) 120 180 = 150 \<and> randomBetween (1/2) 120 180 \<in> \<int> \<and>
   gapTop (last (obstaclesRef (spawnObstacle someDraws (initialGame 0)))) \<in> \<int>"
  using randomBetween_integer [of 120 180 "1/2" someDraws "initialGame 0"]
  by (simp add: randomBetween_def)

section \<open>Session control\<close>

text \<open>
  C9. \<open>startGame\<close>, which both Start and Restart call, is idempotent: a second call
  changes nothing, and after it the score is 0, there is no obstacle, the spawn clock is 0
  and the player is at its initial pose. A second call from the handler of another render
  gives the state that this call alone would give.
\<close>

theorem startGame_idempotent:
  "startGame c (startGame c g) = startGame c g \<and>
   startGame c' (startGame c g) = startGame c' g \<and>
   score (startGame c g) = 0 \<and> obstaclesRef (startGame c g) = [] \<and>
   lastSpawnRef (startGame c g) = 0 \<and>
   playerRef (startGame c g) =
     \<lparr>px = GAME_WIDTH / 4, py = GAME_HEIGHT / 2, pvy = 0,
      pwidth = PLAYER_SIZE, pheight = PLAYER_SIZE\<rparr>"
  by (simp add: startGame_def resetGame_def initialPlayer_def)

section \<open>The end of a game\<close>

text \<open>
  What a frame does to the run state, the best score and the pending frame: on a hit
  \<open>stopGame\<close> stores the values of the render of \<open>loop\<close>, and after it \<open>loop\<close> requests
  the next frame by the \<open>running\<close> of that render.
\<close>

lemma loop_after_hit:
  assumes "anyHit (playerRef (advance t rnd g)) (obstaclesRef (advance t rnd g))"
  shows "\<not> running (loop c t rnd g)" and "gameOver (loop c t rnd g)"
    and "best (loop c t rnd g) = (if rScore c > rBest c then rScore c else best g)"
    and "framePending (loop c t rnd g) = (if rRunning c then Some c else None)"
  using assms
  by (simp_all add: loop_def Let_def detectCollisions_def stopGame_def advance_frame)



section \<open>Scoring\<close>

lemma obstacleBody_score:
  "snd (obstacleBody dt x ob sc) =
     (if \<not> passed ob \<and> ox ob - speed ob * (dt / 16.6667) + owidth ob < x then sc + 1 else sc)"
  by (simp add: obstacleBody_def Let_def)

lemma obstacleBody_passed:
  "passed (fst (obstacleBody dt x ob sc)) =
     (passed ob \<or> ox ob - speed ob * (dt / 16.6667) + owidth ob < x)"
  by (auto simp add: obstacleBody_def Let_def)

text \<open>What one pass of the loop does to the score and to the number of unscored obstacles.\<close>

lemma forObstacles_score:
  "snd (forObstacles dt x obs sc) =
     sc + int (length (filter (\<lambda>ob. \<not> passed ob \<and>
                 ox ob - speed ob * (dt / 16.6667) + owidth ob < x) obs))"
proof (induction obs arbitrary: sc)
  case Nil
  show ?case by simp
next
  case (Cons ob obs)
  let ?P = "\<lambda>ob. \<not> passed ob \<and> ox ob - speed ob * (dt / 16.6667) + owidth ob < x"
  obtain ob' sc' where b: "obstacleBody dt x ob sc = (ob', sc')"
    by (cases "obstacleBody dt x ob sc")
  obtain rest' sc'' where r: "forObstacles dt x obs sc' = (rest', sc'')"
    by (cases "forObstacles dt x obs sc'")
  have step: "forObstacles dt x (ob # obs) sc = (ob' # rest', sc'')"
    by (simp add: b r)
  have one: "sc' = (if ?P ob then sc + 1 else sc)"
    using obstacleBody_score[of dt x ob sc] by (simp only: b snd_conv)
  have more: "sc'' = sc' + int (length (filter ?P obs))"
    using Cons.IH[of sc'] by (simp only: r snd_conv)
  show ?case
    unfolding step snd_conv more one by simp
qed

lemma forObstacles_potential:
  "snd (forObstacles dt x obs sc) +
     int (length (filter (\<lambda>ob. \<not> passed ob) (fst (forObstacles dt x obs sc)))) =
   sc + int (length (filter (\<lambda>ob. \<not> passed ob) obs))"
proof (induction obs arbitrary: sc)
  case Nil
  show ?case by simp
next
  case (Cons ob obs)
  obtain ob' sc' where b: "obstacleBody dt x ob sc = (ob', sc')"
    by (cases "obstacleBody dt x ob sc")
  obtain rest' sc'' where r: "forObstacles dt x obs sc' = (rest', sc'')"
    by (cases "forObstacles dt x obs sc'")
  have step: "forObstacles dt x (ob # obs) sc = (ob' # rest', sc'')"
    by (simp add: b r)
  have "sc' = (if \<not> passed ob \<and> ox ob - speed ob * (dt / 16.6667) + owidth ob < x
               then sc + 1 else sc)"
    using obstacleBody_score[of dt x ob sc] by (simp only: b snd_conv)
  moreover have "passed ob' = (passed ob \<or> ox ob - speed ob * (dt / 16.6667) + owidth ob < x)"
    using obstacleBody_passed[of dt x ob sc] by (simp only: b fst_conv)
  ultimately have one: "sc' + (if passed ob' then 0 else 1) = sc + (if passed ob then 0 else 1)"
    by (cases "passed ob") simp_all
  have more: "sc'' + int (length (filter (\<lambda>ob. \<not> passed ob) rest')) =
          sc' + int (length (filter (\<lambda>ob. \<not> passed ob) obs))"
    using Cons.IH[of sc'] by (simp only: r snd_conv fst_conv)
  show ?case
    unfolding step snd_conv fst_conv using one more by (cases "passed ob'"; cases "passed ob") simp_all
qed

lemma updateObstacles_score:
  "score (updateObstacles dt g) =
     score g + int (length (filter (\<lambda>ob. \<not> passed ob \<and>
        ox ob - speed ob * (dt / 16.6667) + owidth ob < px (playerRef g)) (obstaclesRef g)))"
proof -
  obtain list sc where f: "forObstacles dt (px (playerRef g)) (obstaclesRef g) (score g) = (list, sc)"
    by (cases "forObstacles dt (px (playerRef g)) (obstaclesRef g) (score g)")
  have "score (updateObstacles dt g) = sc"
    by (simp add: updateObstacles_def f)
  with forObstacles_score[of dt "px (playerRef g)" "obstaclesRef g" "score g"] show ?thesis
    by (simp only: f snd_conv)
qed

lemma length_filter_filter_le: "length (filter P (filter Q xs)) \<le> length (filter P xs)"
  by (induction xs) auto

lemma updateObstacles_potential:
  "score (updateObstacles dt g) + unpassed (updateObstacles dt g) \<le> score g + unpassed g"
proof -
  obtain list sc where f: "forObstacles dt (px (playerRef g)) (obstaclesRef g) (score g) = (list, sc)"
    by (cases "forObstacles dt (px (playerRef g)) (obstaclesRef g) (score g)")
  have "sc + int (length (filter (\<lambda>ob. \<not> passed ob) list)) =
          score g + int (length (filter (\<lambda>ob. \<not> passed ob) (obstaclesRef g)))"
    using forObstacles_potential[of dt "px (playerRef g)" "obstaclesRef g" "score g"] f by simp
  moreover have "length (filter (\<lambda>ob. \<not> passed ob) (filter (\<lambda>ob. ox ob + owidth ob > - 50) list))
                  \<le> length (filter (\<lambda>ob. \<not> passed ob) list)"
    by (rule length_filter_filter_le)
  ultimately show ?thesis
    by (simp add: updateObstacles_def unpassed_def f)
qed

lemma updates_potential:
  "score (updates ds g) + unpassed (updates ds g) \<le> score g + unpassed g"
proof (induction ds g rule: updates.induct)
  case (1 g)
  show ?case by simp
next
  case (2 dt p rest g)
  have "score (updateObstacles dt (g\<lparr>playerRef := p\<rparr>)) + unpassed (updateObstacles dt (g\<lparr>playerRef := p\<rparr>))
          \<le> score (g\<lparr>playerRef := p\<rparr>) + unpassed (g\<lparr>playerRef := p\<rparr>)"
    by (rule updateObstacles_potential)
  with 2 show ?case by (simp add: unpassed_def)
qed

lemma updates_score_mono: "score g \<le> score (updates ds g)"
proof (induction ds g rule: updates.induct)
  case (1 g)
  show ?case by simp
next
  case (2 dt p rest g)
  have "score g \<le> score (updateObstacles dt (g\<lparr>playerRef := p\<rparr>))"
    by (simp add: updateObstacles_score)
  with 2 show ?case by simp
qed

lemma unpassed_nonneg: "0 \<le> unpassed g"
  by (simp add: unpassed_def)

text \<open>
  C4. The loop body of \<open>updateObstacles\<close> adds 1 to the score exactly for an obstacle that
  is not yet marked passed and whose right edge, after the move, is strictly left of the
  player's \<open>x\<close>, and it marks that obstacle passed; one call adds the number of such
  obstacles. Over any number of further calls, wherever the player is, the score never
  decreases and grows by at most the number of obstacles not yet passed: the score plus
  that number never increases, so no obstacle is counted twice.
\<close>

theorem obstacle_scored_once:
  "snd (obstacleBody dt x ob sc) =
     (if \<not> passed ob \<and> ox ob - speed ob * (dt / 16.6667) + owidth ob < x then sc + 1 else sc) \<and>
   passed (fst (obstacleBody dt x ob sc)) =
     (passed ob \<or> ox ob - speed ob * (dt / 16.6667) + owidth ob < x) \<and>
   score (updateObstacles dt g) =
     score g + int (length (filter (\<lambda>ob. \<not> passed ob \<and>
        ox ob - speed ob * (dt / 16.6667) + owidth ob < px (playerRef g)) (obstaclesRef g))) \<and>
   score g \<le> score (updates ds g) \<and>
   score (updates ds g) \<le> score g + unpassed g \<and>
   score (updates ds g) + unpassed (updates ds g) \<le> score g + unpassed g"
proof -
  have "score (updates ds g) \<le> score g + unpassed g"
    using updates_potential[of ds g] unpassed_nonneg[of "updates ds g"] by linarith
  then show ?thesis
    by (simp only: obstacleBody_score obstacleBody_passed updateObstacles_score
        updates_score_mono updates_potential simp_thms if_True if_False)
qed

end
